theory Spec2Isabelle
  imports Main
begin

section \<open>Go string helpers used by the gateway\<close>

text \<open>
  The gateway works on Go strings (byte sequences) with a handful of functions of the
  \<^verbatim>\<open>strings\<close> package. They are modelled on \<^typ>\<open>string\<close> (a list of bytes).
\<close>

text \<open>\<^verbatim>\<open>strings.HasPrefix(s, prefix)\<close>: \<^verbatim>\<open>len(s) >= len(prefix) && s[:len(prefix)] == prefix\<close>.\<close>

definition HasPrefix :: "string \<Rightarrow> string \<Rightarrow> bool" where
  "HasPrefix s pre = (length pre \<le> length s \<and> take (length pre) s = pre)"

text \<open>\<^verbatim>\<open>strings.Contains(s, substr)\<close>: some suffix of \<open>s\<close> starts with \<open>substr\<close>.\<close>

fun Contains :: "string \<Rightarrow> string \<Rightarrow> bool" where
  "Contains [] sub = (sub = [])"
| "Contains (c # cs) sub = (if HasPrefix (c # cs) sub then True else Contains cs sub)"

text \<open>\<^verbatim>\<open>strings.TrimPrefix(s, prefix)\<close>.\<close>

definition TrimPrefix :: "string \<Rightarrow> string \<Rightarrow> string" where
  "TrimPrefix s pre = (if HasPrefix s pre then drop (length pre) s else s)"

text \<open>\<^verbatim>\<open>strings.Split(s, sep)\<close> for a one-byte separator: never empty, \<open>Split "" = [""]\<close>.\<close>

fun Split :: "string \<Rightarrow> char \<Rightarrow> string list" where
  "Split [] sep = [[]]"
| "Split (c # cs) sep =
     (if c = sep then [] # Split cs sep
      else (case Split cs sep of
              [] \<Rightarrow> [[c]]
            | p # ps \<Rightarrow> (c # p) # ps))"

text \<open>\<^verbatim>\<open>strings.SplitN(s, sep, 2)\<close> for a one-byte separator: cut at the first separator only.\<close>

definition SplitN2 :: "string \<Rightarrow> char \<Rightarrow> string list" where
  "SplitN2 s sep =
     (if sep \<in> set s
      then [takeWhile (\<lambda>c. c \<noteq> sep) s, tl (dropWhile (\<lambda>c. c \<noteq> sep) s)]
      else [s])"

text \<open>\<^verbatim>\<open>strings.ToLower\<close> on ASCII text (header names, user agents): bytes \<open>A..Z\<close> are
  moved to \<open>a..z\<close>, every other byte is kept. Go lowers letters outside ASCII as well; text
  with such letters is outside this model.\<close>

definition lower_char :: "char \<Rightarrow> char" where
  "lower_char c =
     (if (65::nat) \<le> of_char c \<and> of_char c \<le> (90::nat)
      then char_of (of_char c + (32::nat)) else c)"

definition ToLower :: "string \<Rightarrow> string" where
  "ToLower s = map lower_char s"


section \<open>The request context of the web framework\<close>

text \<open>
  A handler receives a gin context. The part of it the middleware touches is modelled as a
  record that is passed through and returned updated:
  \<^item> \<open>keys\<close>: the values stored by \<^verbatim>\<open>c.Set\<close>;
  \<^item> \<open>written\<close>: every \<^verbatim>\<open>c.JSON(code, body)\<close> call, in order. The first one fixes the status
    line of the response; a later one cannot change the status any more and appends its
    body to the same response;
  \<^item> \<open>aborted\<close>: set by \<^verbatim>\<open>c.Abort()\<close>, which moves the handler index past the chain;
  \<^item> \<open>handlers_ran\<close>: set when \<^verbatim>\<open>c.Next()\<close> really runs the rest of the handler chain
    (after an abort \<^verbatim>\<open>c.Next()\<close> runs nothing);
  \<^item> \<open>identity_calls\<close>, \<open>authz_calls\<close>: how many HTTP requests were sent to the identity
    service (port 8202) and to the authorization service (port 8203).
\<close>

datatype ctx_value = VStr string | VBool bool | VStrs "string list"

type_synonym H = "(string \<times> string) list"

record Context =
  keys :: "string \<rightharpoonup> ctx_value"
  written :: "(nat \<times> H) list"
  aborted :: bool
  handlers_ran :: bool
  identity_calls :: nat
  authz_calls :: nat

definition new_context :: Context where
  "new_context = \<lparr> keys = Map.empty, written = [], aborted = False, handlers_ran = False,
                    identity_calls = 0, authz_calls = 0 \<rparr>"

definition Set_key :: "string \<Rightarrow> ctx_value \<Rightarrow> Context \<Rightarrow> Context" where
  "Set_key k v c = c\<lparr> keys := (keys c)(k \<mapsto> v) \<rparr>"

definition JSON :: "nat \<Rightarrow> H \<Rightarrow> Context \<Rightarrow> Context" where
  "JSON code obj c = c\<lparr> written := written c @ [(code, obj)] \<rparr>"

definition Abort :: "Context \<Rightarrow> Context" where
  "Abort c = c\<lparr> aborted := True \<rparr>"

definition Next :: "Context \<Rightarrow> Context" where
  "Next c = (if aborted c then c else c\<lparr> handlers_ran := True \<rparr>)"

text \<open>The status line the client sees: that of the first write, if any.\<close>

definition response_status :: "Context \<Rightarrow> nat option" where
  "response_status c = (case written c of [] \<Rightarrow> None | (code, _) # _ \<Rightarrow> Some code)"

text \<open>The inbound request, as far as the middleware and the router read it.\<close>

record Request =
  req_path :: string
  req_header :: "string \<Rightarrow> string"
  req_query_api_key :: string
  req_cookie_api_key :: "string option"
  req_client_ip :: string


section \<open>Remote services\<close>

text \<open>
  \<^verbatim>\<open>makeAuthServiceRequest\<close> followed by \<^verbatim>\<open>json.Unmarshal\<close> has three outcomes: the request
  fails (transport error or a status other than 200), the body does not parse, or a
  response structure is obtained.
\<close>

datatype 'a reply = RequestFailed | ParseFailed | Parsed 'a

record TokenVerificationResponse =
  tv_valid :: bool
  tv_provider :: string
  tv_user_id :: string
  tv_email :: string

record APIKeyVerificationResponse =
  ak_valid :: bool
  ak_key_id :: string
  ak_organization_id :: string
  ak_name :: string
  ak_permissions :: "string list"

record AccessCheckResponse =
  ac_has_access :: bool
  ac_user_access_level :: string
  ac_permission_source :: string
  ac_subscription_tier :: string

record AuthServices =
  verify_token :: "string \<Rightarrow> TokenVerificationResponse reply"
  verify_api_key :: "string \<Rightarrow> APIKeyVerificationResponse reply"
  check_access :: "string \<Rightarrow> string \<Rightarrow> string \<Rightarrow> string \<Rightarrow> AccessCheckResponse reply"

text \<open>
  The Consul agent behind the registry client. \<open>agent_services\<close> is the answer of
  \<^verbatim>\<open>client.Agent().Services()\<close> and \<open>health_catalog\<close> the catalog that
  \<^verbatim>\<open>client.Health().Service\<close> queries, each entry with its health state; \<open>None\<close> is a
  transport error.
\<close>

record AgentService =
  svc_id :: string
  svc_service :: string
  svc_address :: string
  svc_port :: int
  svc_tags :: "string list"

record ServiceEntry =
  entry_service :: AgentService
  entry_passing :: bool

record ConsulRegistry =
  agent_services :: "AgentService list option"
  health_catalog :: "ServiceEntry list option"


section \<open>Unified authentication middleware\<close>

definition publicPaths :: "string list" where
  "publicPaths = [''/health'', ''/ready'', ''/api/v1/gateway/services'']"

fun any_public_prefix :: "string \<Rightarrow> string list \<Rightarrow> bool" where
  "any_public_prefix path [] = False"
| "any_public_prefix path (publicPath # rest) =
     (if HasPrefix path publicPath then True else any_public_prefix path rest)"

definition isPublicEndpoint :: "string \<Rightarrow> bool" where
  "isPublicEndpoint path = any_public_prefix path publicPaths"

text \<open>\<^verbatim>\<open>ListServices\<close>: the names registered with the agent (the tags are not used by the
  middleware), or an error.\<close>

definition ListServices :: "ConsulRegistry \<Rightarrow> (string \<rightharpoonup> string list) option" where
  "ListServices r =
     (case agent_services r of
        None \<Rightarrow> None
      | Some svcs \<Rightarrow> Some (map_of (map (\<lambda>s. (svc_service s, svc_tags s)) svcs)))"

definition isValidInternalService :: "string \<Rightarrow> ConsulRegistry option \<Rightarrow> bool" where
  "isValidInternalService serviceName consul =
     (case consul of
        None \<Rightarrow> False
      | Some r \<Rightarrow>
          (case ListServices r of
             None \<Rightarrow> False
           | Some services \<Rightarrow> (case services serviceName of None \<Rightarrow> False | Some _ \<Rightarrow> True)))"

definition isLocalhost :: "string \<Rightarrow> bool" where
  "isLocalhost ip = (ip = ''127.0.0.1'' \<or> ip = ''::1'' \<or> HasPrefix ip ''localhost'')"

definition serviceUserAgents :: "string list" where
  "serviceUserAgents = [''python-httpx'', ''axios'', ''node-fetch'', ''go-resty'', ''curl'']"

fun any_contained :: "string \<Rightarrow> string list \<Rightarrow> bool" where
  "any_contained ua [] = False"
| "any_contained ua (serviceUA # rest) =
     (if Contains ua serviceUA then True else any_contained ua rest)"

definition isServiceUserAgent :: "string \<Rightarrow> bool" where
  "isServiceUserAgent userAgent = any_contained (ToLower userAgent) serviceUserAgents"

definition handleInternalServiceAuth ::
  "ConsulRegistry option \<Rightarrow> Request \<Rightarrow> Context \<Rightarrow> bool \<times> Context" where
  "handleInternalServiceAuth consul req c =
     (let serviceName = req_header req ''X-Service-Name'';
          serviceSecret = req_header req ''X-Service-Secret''
      in if serviceName \<noteq> [] \<and> serviceSecret \<noteq> [] \<and> consul \<noteq> None
            \<and> isValidInternalService serviceName consul
         then (True,
               Next (Set_key ''service_name'' (VStr serviceName)
                    (Set_key ''is_internal'' (VBool True)
                    (Set_key ''organization_id'' (VStr ''internal'')
                    (Set_key ''user_id'' (VStr (''service-'' @ serviceName)) c)))))
         else if isLocalhost (req_client_ip req)
                 \<and> isServiceUserAgent (req_header req ''User-Agent'')
         then (True,
               Next (Set_key ''is_internal'' (VBool True)
                    (Set_key ''organization_id'' (VStr ''local'')
                    (Set_key ''user_id'' (VStr ''local-dev-service'') c))))
         else (False, c))"

subsection \<open>Resource selector\<close>

definition extractBlockchainResource :: "string \<Rightarrow> string" where
  "extractBlockchainResource path =
     (if Contains path ''/balance/'' then ''balance_check''
      else if Contains path ''/transaction'' then ''transaction''
      else if Contains path ''/status'' then ''status''
      else ''blockchain_general'')"

definition getAgentAccessLevel :: "string \<Rightarrow> string" where
  "getAgentAccessLevel path =
     (if Contains path ''/api/chat'' then ''read_write'' else ''read_only'')"

definition extractMCPResource :: "string \<Rightarrow> string" where
  "extractMCPResource path =
     (if Contains path ''/search'' then ''search''
      else if Contains path ''/tools/call'' then ''tool_execution''
      else if Contains path ''/prompts/get'' then ''prompt_access''
      else ''mcp_general'')"

definition getMCPAccessLevel :: "string \<Rightarrow> string" where
  "getMCPAccessLevel path =
     (if Contains path ''/tools/call'' then ''read_write'' else ''read_only'')"

definition getResourceInfoFromPath :: "string \<Rightarrow> string \<times> string \<times> string" where
  "getResourceInfoFromPath path =
     (if HasPrefix path ''/api/v1/blockchain/''
      then (''api_endpoint'', ''blockchain_'' @ extractBlockchainResource path, ''read_only'')
      else if HasPrefix path ''/api/v1/agents/''
      then (''api_endpoint'', ''agent_chat'', getAgentAccessLevel path)
      else if HasPrefix path ''/api/v1/mcp/''
      then (''mcp_tool'', extractMCPResource path, getMCPAccessLevel path)
      else if HasPrefix path ''/api/v1/gateway/''
      then (''api_endpoint'', ''gateway_management'', ''read_only'')
      else ('''', '''', ''''))"

text \<open>The selector is empty (the gate is skipped) when the type or the level is empty.\<close>

definition selector_nonempty :: "string \<Rightarrow> bool" where
  "selector_nonempty path =
     (case getResourceInfoFromPath path of
        (resourceType, resourceName, requiredLevel) \<Rightarrow>
          (if resourceType = [] \<or> requiredLevel = [] then False else True))"

subsection \<open>Authorization gate\<close>

definition checkResourcePermissions ::
  "AuthServices \<Rightarrow> Request \<Rightarrow> string \<Rightarrow> Context \<Rightarrow> bool \<times> Context" where
  "checkResourcePermissions env req userID c =
     (case getResourceInfoFromPath (req_path req) of
        (resourceType, resourceName, requiredLevel) \<Rightarrow>
          if resourceType = [] \<or> requiredLevel = [] then (True, c)
          else
            (let c1 = c\<lparr> authz_calls := Suc (authz_calls c) \<rparr> in
             case check_access env userID resourceType resourceName requiredLevel of
               RequestFailed \<Rightarrow> (True, c1)
             | ParseFailed \<Rightarrow> (True, c1)
             | Parsed accessResp \<Rightarrow>
                 if ac_has_access accessResp
                 then (True,
                       Set_key ''subscription_tier'' (VStr (ac_subscription_tier accessResp))
                      (Set_key ''permission_source'' (VStr (ac_permission_source accessResp))
                      (Set_key ''access_level'' (VStr (ac_user_access_level accessResp)) c1)))
                 else (False, c1)))"

subsection \<open>External credentials\<close>

definition forbidden_body :: H where
  "forbidden_body =
     [(''error'', ''insufficient permissions''),
      (''message'', ''user does not have permission to access this resource'')]"

definition unauthorized_body :: H where
  "unauthorized_body =
     [(''error'', ''authentication required''),
      (''message'', ''valid JWT token or API key required'')]"

definition handleJWTAuth :: "AuthServices \<Rightarrow> Request \<Rightarrow> Context \<Rightarrow> bool \<times> Context" where
  "handleJWTAuth env req c =
     (let authHeader = req_header req ''Authorization'' in
      if authHeader = [] then (False, c)
      else
        (case SplitN2 authHeader CHR '' '' of
           [scheme, token] \<Rightarrow>
             if scheme = ''Bearer'' then
               (if token = [] then (False, c)
                else
                  (let c1 = c\<lparr> identity_calls := Suc (identity_calls c) \<rparr> in
                   case verify_token env token of
                     RequestFailed \<Rightarrow> (False, c1)
                   | ParseFailed \<Rightarrow> (False, c1)
                   | Parsed tokenResp \<Rightarrow>
                       if tv_valid tokenResp then
                         (let c2 = Set_key ''auth_method'' (VStr ''jwt'')
                                  (Set_key ''is_internal'' (VBool False)
                                  (Set_key ''provider'' (VStr (tv_provider tokenResp))
                                  (Set_key ''email'' (VStr (tv_email tokenResp))
                                  (Set_key ''user_id'' (VStr (tv_user_id tokenResp)) c1))))
                          in case checkResourcePermissions env req (tv_user_id tokenResp) c2 of
                               (hasResourceAccess, c3) \<Rightarrow>
                                 if hasResourceAccess then (True, Next c3)
                                 else (False, Abort (JSON 403 forbidden_body c3)))
                       else (False, c1)))
             else (False, c)
         | _ \<Rightarrow> (False, c)))"

definition handleAPIKeyAuth :: "AuthServices \<Rightarrow> Request \<Rightarrow> Context \<Rightarrow> bool \<times> Context" where
  "handleAPIKeyAuth env req c =
     (let apiKey0 = req_header req ''X-API-Key'';
          apiKey1 = (if apiKey0 = [] then req_query_api_key req else apiKey0);
          apiKey = (if apiKey1 = []
                    then (case req_cookie_api_key req of None \<Rightarrow> apiKey1 | Some cookie \<Rightarrow> cookie)
                    else apiKey1)
      in if apiKey = [] then (False, c)
         else
           (let c1 = c\<lparr> identity_calls := Suc (identity_calls c) \<rparr> in
            case verify_api_key env apiKey of
              RequestFailed \<Rightarrow> (False, c1)
            | ParseFailed \<Rightarrow> (False, c1)
            | Parsed keyResp \<Rightarrow>
                if ak_valid keyResp then
                  (True,
                   Next (Set_key ''auth_method'' (VStr ''api_key'')
                        (Set_key ''is_internal'' (VBool False)
                        (Set_key ''permissions'' (VStrs (ak_permissions keyResp))
                        (Set_key ''api_key_name'' (VStr (ak_name keyResp))
                        (Set_key ''organization_id'' (VStr (ak_organization_id keyResp))
                        (Set_key ''user_id'' (VStr (''api-key-'' @ ak_key_id keyResp)) c1)))))))
                else (False, c1)))"

definition handleExternalAuth :: "AuthServices \<Rightarrow> Request \<Rightarrow> Context \<Rightarrow> bool \<times> Context" where
  "handleExternalAuth env req c =
     (case handleJWTAuth env req c of
        (authenticated, c1) \<Rightarrow>
          if authenticated then (True, c1)
          else (case handleAPIKeyAuth env req c1 of
                  (authenticated2, c2) \<Rightarrow>
                    if authenticated2 then (True, c2) else (False, c2)))"

definition UnifiedAuthentication ::
  "AuthServices \<Rightarrow> ConsulRegistry option \<Rightarrow> Request \<Rightarrow> Context \<Rightarrow> Context" where
  "UnifiedAuthentication env consul req c =
     (if isPublicEndpoint (req_path req) then Next c
      else
        (case handleInternalServiceAuth consul req c of
           (authenticated, c1) \<Rightarrow>
             if authenticated then c1
             else
               (case handleExternalAuth env req c1 of
                  (authenticated2, c2) \<Rightarrow>
                    if authenticated2 then c2
                    else Abort (JSON 401 unauthorized_body c2))))"

text \<open>
  A request is passed on as Anonymous when the rest of the chain runs and no principal
  was attached: every authenticated branch stores \<open>user_id\<close>.
\<close>

definition passed_anonymous :: "Context \<Rightarrow> bool" where
  "passed_anonymous c = (handlers_ran c \<and> keys c ''user_id'' = None)"


section \<open>Service registry client\<close>

record ServiceInstance =
  inst_id :: string
  inst_name :: string
  inst_host :: string
  inst_port :: int
  inst_tags :: "string list"

datatype registry_error = DiscoverFailed | NoHealthyInstances string | IndexOutOfRange

text \<open>
  \<^verbatim>\<open>client.Health().Service(name, "", passingOnly, nil)\<close> of the Consul API: the catalog
  entries of the service, only those whose checks pass when \<open>passingOnly\<close> is set.
\<close>

definition Health_Service :: "ConsulRegistry \<Rightarrow> string \<Rightarrow> bool \<Rightarrow> ServiceEntry list option" where
  "Health_Service r name passingOnly =
     (case health_catalog r of
        None \<Rightarrow> None
      | Some entries \<Rightarrow>
          Some (filter (\<lambda>e. svc_service (entry_service e) = name
                            \<and> (if passingOnly then entry_passing e else True)) entries))"

definition instance_of :: "ServiceEntry \<Rightarrow> ServiceInstance" where
  "instance_of service =
     \<lparr> inst_id = svc_id (entry_service service),
       inst_name = svc_service (entry_service service),
       inst_host = svc_address (entry_service service),
       inst_port = svc_port (entry_service service),
       inst_tags = svc_tags (entry_service service) \<rparr>"

definition DiscoverService :: "ConsulRegistry \<Rightarrow> string \<Rightarrow> registry_error + ServiceInstance list" where
  "DiscoverService r name =
     (case Health_Service r name True of
        None \<Rightarrow> Inl DiscoverFailed
      | Some services \<Rightarrow>
          if length services = 0 then Inl (NoHealthyInstances name)
          else Inr (map instance_of services))"

text \<open>\<^verbatim>\<open>instances[0]\<close> panics on an empty slice; the panic is the value \<open>IndexOutOfRange\<close>.\<close>

definition GetHealthyInstance :: "ConsulRegistry \<Rightarrow> string \<Rightarrow> registry_error + ServiceInstance" where
  "GetHealthyInstance r name =
     (case DiscoverService r name of
        Inl err \<Rightarrow> Inl err
      | Inr instances \<Rightarrow>
          (case instances of [] \<Rightarrow> Inl IndexOutOfRange | first # _ \<Rightarrow> Inr first))"


section \<open>Dynamic router\<close>

text \<open>\<^verbatim>\<open>%d\<close> of \<^verbatim>\<open>fmt.Sprintf\<close>: the decimal digits of an integer.\<close>

definition digit_char :: "nat \<Rightarrow> char" where
  "digit_char d = ''0123456789'' ! d"

function decimal :: "nat \<Rightarrow> string" where
  "decimal n = (if n < 10 then [digit_char n] else decimal (n div 10) @ [digit_char (n mod 10)])"
  by pat_completeness auto
termination
  by (relation "measure id") auto

declare decimal.simps [simp del]

definition format_int :: "int \<Rightarrow> string" where
  "format_int i = (if i < 0 then CHR ''-'' # decimal (nat (- i)) else decimal (nat i))"

definition target_url :: "string \<Rightarrow> int \<Rightarrow> string" where
  "target_url host port = ''http://'' @ host @ '':'' @ format_int port"

text \<open>
  The dynamic proxy holds the optional registry and the reverse proxies built from the
  static configuration (logical name to target URL).
\<close>

record DynamicProxy =
  dp_registry :: "ConsulRegistry option"
  dp_proxies :: "string \<rightharpoonup> string"

text \<open>What the router's handler does with a request.\<close>

datatype proxy_action =
    PassNext
  | RespondJSON nat H
  | RunSSEProxy string
  | RunReverseProxy string
  | RunStaticProxy string

fun hasSSE :: "string list \<Rightarrow> bool" where
  "hasSSE [] = False"
| "hasSSE (tag # rest) = (if tag = ''sse'' \<or> tag = ''streaming'' then True else hasSSE rest)"

definition logical_service :: "string \<Rightarrow> string option" where
  "logical_service path =
     (let parts = Split (TrimPrefix path ''/api/v1/'') CHR ''/'' in
      case parts of
        [] \<Rightarrow> None
      | serviceName # _ \<Rightarrow>
          Some (if serviceName = ''users'' \<and> 3 \<le> length parts \<and> parts ! 2 = ''sessions''
                then ''sessions'' else serviceName))"

definition discover_instance :: "DynamicProxy \<Rightarrow> string \<Rightarrow> ServiceInstance option" where
  "discover_instance dp serviceName =
     (case dp_registry dp of
        None \<Rightarrow> None
      | Some r \<Rightarrow>
          (case GetHealthyInstance r serviceName of
             Inl err \<Rightarrow> None
           | Inr instance \<Rightarrow> Some instance))"

definition DynamicProxy_Handler :: "DynamicProxy \<Rightarrow> Request \<Rightarrow> proxy_action" where
  "DynamicProxy_Handler dp req =
     (if \<not> HasPrefix (req_path req) ''/api/v1/'' then PassNext
      else if HasPrefix (req_path req) ''/api/v1/gateway/'' then PassNext
      else
        (case logical_service (req_path req) of
           None \<Rightarrow> RespondJSON 404 [(''error'', ''Invalid path'')]
         | Some serviceName \<Rightarrow>
             (case discover_instance dp serviceName of
                Some instance \<Rightarrow>
                  (let targetURL = target_url (inst_host instance) (inst_port instance) in
                   if hasSSE (inst_tags instance) then RunSSEProxy targetURL
                   else RunReverseProxy targetURL)
              | None \<Rightarrow>
                  (case dp_proxies dp serviceName of
                     None \<Rightarrow> RespondJSON 404 [(''error'', ''Service not found'')]
                   | Some target \<Rightarrow> RunStaticProxy target))))"

subsection \<open>Paths sent upstream\<close>

text \<open>
  The reverse proxy of the Go standard library (\<^verbatim>\<open>httputil.NewSingleHostReverseProxy\<close>)
  sends the path \<^verbatim>\<open>singleJoiningSlash(target.Path, req.URL.Path)\<close>; the router installs no
  director of its own that would rewrite the path.
\<close>

definition HasSuffix :: "string \<Rightarrow> string \<Rightarrow> bool" where
  "HasSuffix s suf = (length suf \<le> length s \<and> drop (length s - length suf) s = suf)"

definition singleJoiningSlash :: "string \<Rightarrow> string \<Rightarrow> string" where
  "singleJoiningSlash a b =
     (let aslash = HasSuffix a ''/''; bslash = HasPrefix b ''/'' in
      if aslash \<and> bslash then a @ tl b
      else if \<not> aslash \<and> \<not> bslash then a @ ''/'' @ b
      else a @ b)"

text \<open>The SSE proxy rewrites the path itself, with the same code in both of its branches.\<close>

definition proxySSE_path :: "string \<Rightarrow> string" where
  "proxySSE_path path =
     (if HasPrefix path ''/api/v1/agents/'' \<or> HasPrefix path ''/api/v1/models/'' then path
      else if HasPrefix path ''/api/v1/'' then
        (case SplitN2 (TrimPrefix path ''/api/v1/'') CHR ''/'' of
           first # second # _ \<Rightarrow> ''/'' @ second
         | _ \<Rightarrow> ''/'')
      else path)"

definition proxyHTTP_path :: "string \<Rightarrow> string" where
  "proxyHTTP_path path =
     (if HasPrefix path ''/api/v1/agents/'' \<or> HasPrefix path ''/api/v1/models/'' then path
      else if HasPrefix path ''/api/v1/'' then
        (case SplitN2 (TrimPrefix path ''/api/v1/'') CHR ''/'' of
           first # second # _ \<Rightarrow> ''/'' @ second
         | _ \<Rightarrow> ''/'')
      else path)"

datatype sse_branch = ProxyHTTP | ProxySSE

definition SSEProxy_Handler :: "Request \<Rightarrow> sse_branch" where
  "SSEProxy_Handler req =
     (let accept = req_header req ''Accept'' in
      if \<not> Contains accept ''text/event-stream'' \<and> \<not> Contains accept ''*/*''
      then ProxyHTTP else ProxySSE)"

subsection \<open>The URL of the upstream request\<close>

text \<open>
  Both branches of the SSE proxy paste the rewritten path (the decoded path of the inbound
  request) and the raw query behind the target URL and give the string to
  \<^verbatim>\<open>http.NewRequestWithContext\<close>, which parses it with \<^verbatim>\<open>url.Parse\<close>; the router parses the
  target URL of the standard proxy with \<^verbatim>\<open>url.Parse\<close> as well. The parser of the Go
  standard library is modelled for the URLs the gateway builds, which all start with the
  literal \<^verbatim>\<open>http://\<close>:
  \<^item> everything from the first \<^verbatim>\<open>#\<close> on is the fragment;
  \<^item> a control byte before the fragment is an error;
  \<^item> everything from the first \<^verbatim>\<open>?\<close> on is the query;
  \<^item> the authority ends at the first \<^verbatim>\<open>/\<close>, and what follows is the path;
  \<^item> path and fragment are unescaped (\<^verbatim>\<open>%XX\<close> becomes one byte; a malformed escape is an
    error).
  Whether the authority itself is accepted (\<^verbatim>\<open>parseAuthority\<close> of \<^verbatim>\<open>net/url\<close>: host
  characters, port, user information) is a parameter of the model.
\<close>

definition isCTL :: "char \<Rightarrow> bool" where
  "isCTL c = ((of_char c :: nat) < 32 \<or> (of_char c :: nat) = 127)"

definition ishex :: "char \<Rightarrow> bool" where
  "ishex c = (c \<in> set ''0123456789abcdefABCDEF'')"

definition unhex :: "char \<Rightarrow> nat" where
  "unhex c =
     (if (48::nat) \<le> of_char c \<and> (of_char c :: nat) \<le> 57 then of_char c - 48
      else if (97::nat) \<le> of_char c \<and> (of_char c :: nat) \<le> 102 then of_char c - 97 + 10
      else of_char c - 65 + 10)"

fun unescape :: "string \<Rightarrow> string option" where
  "unescape [] = Some []"
| "unescape (c # cs) =
     (if c = CHR ''%'' then
        (case cs of
           h1 # h2 # rest \<Rightarrow>
             if ishex h1 \<and> ishex h2
             then map_option ((#) (char_of (16 * unhex h1 + unhex h2))) (unescape rest)
             else None
         | _ \<Rightarrow> None)
      else map_option ((#) c) (unescape cs))"

record URL =
  url_Host :: string
  url_Path :: string
  url_RawQuery :: string
  url_Fragment :: string

definition url_Parse :: "(string \<Rightarrow> bool) \<Rightarrow> string \<Rightarrow> URL option" where
  "url_Parse parseAuthority rawURL =
     (let u = takeWhile (\<lambda>c. c \<noteq> CHR ''#'') rawURL;
          frag = drop (Suc (length u)) rawURL
      in if list_ex isCTL u then None
         else if HasPrefix u ''http://'' then
           (let rest = takeWhile (\<lambda>c. c \<noteq> CHR ''?'') (drop 7 u);
                query = drop (Suc (length rest)) (drop 7 u);
                authority = takeWhile (\<lambda>c. c \<noteq> CHR ''/'') rest;
                p = dropWhile (\<lambda>c. c \<noteq> CHR ''/'') rest
            in if parseAuthority authority then
                 (case unescape p of
                    None \<Rightarrow> None
                  | Some path \<Rightarrow>
                      (case unescape frag of
                         None \<Rightarrow> None
                       | Some fragment \<Rightarrow>
                           Some \<lparr> url_Host = authority, url_Path = path,
                                  url_RawQuery = query, url_Fragment = fragment \<rparr>))
               else None)
         else None)"

text \<open>\<^verbatim>\<open>targetURL := p.targetURL + path\<close>, followed by \<^verbatim>\<open>"?" + RawQuery\<close> when the inbound
  request has a query.\<close>

definition sse_request_url :: "string \<Rightarrow> string \<Rightarrow> string \<Rightarrow> string" where
  "sse_request_url targetURL path rawQuery =
     targetURL @ path @ (if rawQuery = [] then [] else ''?'' @ rawQuery)"

text \<open>
  What becomes of the path of a request that the router forwards: the path of the upstream
  request, or no upstream request at all because the SSE proxy could not build it
  (it answers 500), or because the standard proxy was made for a target that did not
  parse (\<^verbatim>\<open>url.Parse\<close> returned nil and the proxy panics when it is used).
\<close>

datatype upstream_path = Sent string | RequestNotBuilt | NilTargetPanic

text \<open>
  The path of the upstream request for an inbound request with the given raw query.
  The result is \<open>None\<close> when the router does not forward the request. The static table
  holds the proxies \<^verbatim>\<open>NewDynamicProxy\<close> built, which are those whose target parsed.
\<close>

definition forwarded_path ::
  "(string \<Rightarrow> bool) \<Rightarrow> DynamicProxy \<Rightarrow> Request \<Rightarrow> string \<Rightarrow> upstream_path option" where
  "forwarded_path parseAuthority dp req rawQuery =
     (case DynamicProxy_Handler dp req of
        RunSSEProxy targetURL \<Rightarrow>
          Some (case url_Parse parseAuthority
                       (sse_request_url targetURL
                          (case SSEProxy_Handler req of
                             ProxySSE \<Rightarrow> proxySSE_path (req_path req)
                           | ProxyHTTP \<Rightarrow> proxyHTTP_path (req_path req))
                          rawQuery) of
                  None \<Rightarrow> RequestNotBuilt
                | Some u \<Rightarrow> Sent (url_Path u))
      | RunReverseProxy targetURL \<Rightarrow>
          Some (case url_Parse parseAuthority targetURL of
                  None \<Rightarrow> NilTargetPanic
                | Some target \<Rightarrow> Sent (singleJoiningSlash (url_Path target) (req_path req)))
      | RunStaticProxy targetURL \<Rightarrow>
          Some (case url_Parse parseAuthority targetURL of
                  None \<Rightarrow> NilTargetPanic
                | Some target \<Rightarrow> Sent (singleJoiningSlash (url_Path target) (req_path req)))
      | PassNext \<Rightarrow> None
      | RespondJSON code body \<Rightarrow> None)"





section \<open>SSE proxy: handling the upstream response\<close>

text \<open>
  The downstream response writer: the header map, the status, and what was sent so far
  (writes and flushes, in order). \<open>resp_accepts\<close> is the number of writes the client still
  takes before it disconnects; \<open>None\<close> is a client that stays connected.
\<close>

datatype out_event = Write string | WriteJSON H | Flush

record Response =
  resp_headers :: "string \<rightharpoonup> string"
  resp_status :: nat
  resp_out :: "out_event list"
  resp_accepts :: "nat option"

text \<open>
  The response of the upstream service as the HTTP client returns it: the status (the client
  takes only a status line with a code of three digits), the header map with its
  canonical keys, and the body.
\<close>

record UpstreamResponse =
  up_status :: nat
  up_headers :: "(string \<times> string list) list"
  up_body :: string

text \<open>The upstream call: the request cannot be built, \<^verbatim>\<open>client.Do\<close> fails, or a response
  arrives.\<close>

datatype upstream_outcome = BuildFailed | DoFailed | Responded UpstreamResponse

text \<open>\<^verbatim>\<open>c.Header(key, value)\<close>: an empty value deletes the header, any other value sets it.\<close>

definition Header :: "string \<Rightarrow> string \<Rightarrow> Response \<Rightarrow> Response" where
  "Header key val w =
     (if val = [] then w\<lparr> resp_headers := (resp_headers w)(key := None) \<rparr>
      else w\<lparr> resp_headers := (resp_headers w)(key \<mapsto> val) \<rparr>)"

text \<open>\<^verbatim>\<open>c.Status(code)\<close>: the status can change only while nothing has been sent.\<close>

definition Status :: "nat \<Rightarrow> Response \<Rightarrow> Response" where
  "Status code w =
     (if 0 < code \<and> resp_status w \<noteq> code
      then (if resp_out w \<noteq> [] then w else w\<lparr> resp_status := code \<rparr>)
      else w)"

text \<open>
  A write fails when the client is gone, and also when the status of the response admits
  no body (\<^verbatim>\<open>bodyAllowedForStatus\<close> of \<^verbatim>\<open>net/http\<close>: not for 1xx, 204 and 304).
\<close>

definition bodyAllowedForStatus :: "nat \<Rightarrow> bool" where
  "bodyAllowedForStatus status =
     (if 100 \<le> status \<and> status \<le> 199 then False
      else if status = 204 then False
      else if status = 304 then False
      else True)"

definition write_bytes :: "string \<Rightarrow> Response \<Rightarrow> Response option" where
  "write_bytes data w =
     (if bodyAllowedForStatus (resp_status w) then
        (case resp_accepts w of
           None \<Rightarrow> Some (w\<lparr> resp_out := resp_out w @ [Write data] \<rparr>)
         | Some 0 \<Rightarrow> None
         | Some (Suc n) \<Rightarrow>
             Some (w\<lparr> resp_out := resp_out w @ [Write data], resp_accepts := Some n \<rparr>))
      else None)"

definition FlushW :: "Response \<Rightarrow> Response" where
  "FlushW w = w\<lparr> resp_out := resp_out w @ [Flush] \<rparr>"

definition respond_json :: "nat \<Rightarrow> H \<Rightarrow> Response \<Rightarrow> Response" where
  "respond_json code obj w =
     (let w1 = Status code w;
          w2 = (case resp_headers w1 ''Content-Type'' of
                  None \<Rightarrow> Header ''Content-Type'' ''application/json; charset=utf-8'' w1
                | Some _ \<Rightarrow> w1)
      in w2\<lparr> resp_out := resp_out w2 @ [WriteJSON obj] \<rparr>)"

text \<open>\<^verbatim>\<open>resp.Header.Get(key)\<close>: the first value of the header, or the empty string.\<close>

definition Header_Get :: "(string \<times> string list) list \<Rightarrow> string \<Rightarrow> string" where
  "Header_Get hs key = (case map_of hs key of Some (v # _) \<Rightarrow> v | _ \<Rightarrow> [])"

definition hopByHopHeaders :: "string list" where
  "hopByHopHeaders =
     [''Connection'', ''Keep-Alive'', ''Proxy-Authenticate'', ''Proxy-Authorization'',
      ''TE'', ''Trailers'', ''Transfer-Encoding'', ''Upgrade'']"

fun any_lower_equal :: "string \<Rightarrow> string list \<Rightarrow> bool" where
  "any_lower_equal header [] = False"
| "any_lower_equal header (h # rest) =
     (if ToLower h = header then True else any_lower_equal header rest)"

definition isHopByHopHeader :: "string \<Rightarrow> bool" where
  "isHopByHopHeader header = any_lower_equal (ToLower header) hopByHopHeaders"

fun add_values :: "string \<Rightarrow> string list \<Rightarrow> Response \<Rightarrow> Response" where
  "add_values key [] w = w"
| "add_values key (val # rest) w = add_values key rest (Header key val w)"

fun copy_headers :: "(string \<times> string list) list \<Rightarrow> Response \<Rightarrow> Response" where
  "copy_headers [] w = w"
| "copy_headers ((key, vals) # rest) w =
     copy_headers rest (if isHopByHopHeader key then w else add_values key vals w)"

text \<open>\<^verbatim>\<open>io.Copy\<close> of the upstream body to the client; a failed write is only logged.\<close>

definition io_Copy :: "string \<Rightarrow> Response \<Rightarrow> Response" where
  "io_Copy body w =
     (if body = [] then w
      else (case write_bytes body w of None \<Rightarrow> w | Some w' \<Rightarrow> w'))"

definition copyResponse :: "UpstreamResponse \<Rightarrow> Response \<Rightarrow> Response" where
  "copyResponse resp w =
     io_Copy (up_body resp) (Status (up_status resp) (copy_headers (up_headers resp) w))"

text \<open>
  \<^verbatim>\<open>bufio.Scanner\<close> with its default split function \<^verbatim>\<open>ScanLines\<close>: the lines of the input,
  each without its end-of-line marker (a newline, with one carriage return before it
  dropped); a last line without newline is returned when it is not empty. A line that does
  not fit the scanner's buffer of \<open>MaxScanTokenSize\<close> bytes ends the scan with an error.
\<close>

definition MaxScanTokenSize :: nat where
  "MaxScanTokenSize = 65536"

definition dropCR :: "string \<Rightarrow> string" where
  "dropCR data = (if data \<noteq> [] \<and> last data = CHR 0x0D then butlast data else data)"

function scan_lines :: "string \<Rightarrow> string list" where
  "scan_lines data =
     (if data = [] then []
      else if MaxScanTokenSize \<le> length (takeWhile (\<lambda>c. c \<noteq> CHR 0x0A) data) then []
      else dropCR (takeWhile (\<lambda>c. c \<noteq> CHR 0x0A) data)
           # (if dropWhile (\<lambda>c. c \<noteq> CHR 0x0A) data = [] then []
              else scan_lines (tl (dropWhile (\<lambda>c. c \<noteq> CHR 0x0A) data))))"
  by pat_completeness auto
termination
proof (relation "measure length")
  show "wf (measure length)" by simp
next
  fix data :: string
  assume "data \<noteq> []" and "dropWhile (\<lambda>c. c \<noteq> CHR 0x0A) data \<noteq> []"
  then have "length (tl (dropWhile (\<lambda>c. c \<noteq> CHR 0x0A) data))
               < length (dropWhile (\<lambda>c. c \<noteq> CHR 0x0A) data)"
    by simp
  also have "\<dots> \<le> length data"
    by (rule length_dropWhile_le)
  finally show "(tl (dropWhile (\<lambda>c. c \<noteq> CHR 0x0A) data), data) \<in> measure length"
    by simp
qed

declare scan_lines.simps [simp del]

text \<open>The step function given to \<^verbatim>\<open>c.Stream\<close>: one write per line, a flush after a blank
  line, and the end of the stream at the first failed write.\<close>

fun stream_lines :: "string list \<Rightarrow> Response \<Rightarrow> Response" where
  "stream_lines [] w = w"
| "stream_lines (line # rest) w =
     (case write_bytes (line @ [CHR 0x0A]) w of
        None \<Rightarrow> w
      | Some w' \<Rightarrow> stream_lines rest (if line = [] then FlushW w' else w'))"

definition proxy_error_500 :: H where
  "proxy_error_500 = [(''error'', ''failed to create proxy request'')]"

definition proxy_error_502 :: H where
  "proxy_error_502 = [(''error'', ''failed to reach target service'')]"

text \<open>\<^verbatim>\<open>c.Stream\<close> flushes once more when the step function returns.\<close>

definition proxySSE :: "upstream_outcome \<Rightarrow> Response \<Rightarrow> Response" where
  "proxySSE up w =
     (case up of
        BuildFailed \<Rightarrow> respond_json 500 proxy_error_500 w
      | DoFailed \<Rightarrow> respond_json 502 proxy_error_502 w
      | Responded resp \<Rightarrow>
          (let contentType = Header_Get (up_headers resp) ''Content-Type'' in
           if \<not> Contains contentType ''text/event-stream'' then copyResponse resp w
           else
             (let w1 = Header ''Content-Type'' ''text/event-stream'' w;
                  w2 = Header ''Cache-Control'' ''no-cache'' w1;
                  w3 = Header ''Connection'' ''keep-alive'' w2;
                  w4 = Header ''X-Accel-Buffering'' ''no'' w3;
                  w5 = Status (up_status resp) w4
              in FlushW (stream_lines (scan_lines (up_body resp)) w5))))"

definition proxyHTTP :: "upstream_outcome \<Rightarrow> Response \<Rightarrow> Response" where
  "proxyHTTP up w =
     (case up of
        BuildFailed \<Rightarrow> respond_json 500 proxy_error_500 w
      | DoFailed \<Rightarrow> respond_json 502 proxy_error_502 w
      | Responded resp \<Rightarrow> copyResponse resp w)"

definition SSEProxy_serve :: "Request \<Rightarrow> upstream_outcome \<Rightarrow> Response \<Rightarrow> Response" where
  "SSEProxy_serve req up w =
     (case SSEProxy_Handler req of
        ProxyHTTP \<Rightarrow> proxyHTTP up w
      | ProxySSE \<Rightarrow> proxySSE up w)"






section \<open>MQTT bridge\<close>

text \<open>
  The loop of \<^verbatim>\<open>matchTopic\<close> over the pattern's segments. It runs only on lists of the same
  length, so \<^verbatim>\<open>topicParts[i]\<close> is always in range; the last equation is the out-of-range
  read that the length test excludes.
\<close>

fun match_parts :: "string list \<Rightarrow> string list \<Rightarrow> bool" where
  "match_parts [] topicParts = True"
| "match_parts (part # rest) (t # ts) =
     (if part \<noteq> ''+'' \<and> part \<noteq> ''#'' \<and> part \<noteq> t then False
      else if part = ''#'' then True
      else match_parts rest ts)"
| "match_parts (part # rest) [] = False"

definition matchTopic :: "string \<Rightarrow> string \<Rightarrow> bool" where
  "matchTopic pattern topic =
     (let patternParts = Split pattern CHR ''/''; topicParts = Split topic CHR ''/'' in
      if length patternParts \<noteq> length topicParts then False
      else match_parts patternParts topicParts)"

text \<open>
  \<^verbatim>\<open>handleMessage\<close> walks the handler map and runs the handler of the first pattern that
  matches; the list is the map in the order the iteration happens to take. The result is
  the handler that was invoked, or \<open>None\<close> when the message is only logged.
\<close>

fun handleMessage :: "(string \<times> 'h) list \<Rightarrow> string \<Rightarrow> 'h option" where
  "handleMessage [] topic = None"
| "handleMessage ((pattern, handler) # rest) topic =
     (if matchTopic pattern topic then Some handler else handleMessage rest topic)"


section \<open>Rate limiter\<close>















section \<open>Sample environments and requests\<close>

text \<open>Concrete inputs on which the theorems below are instantiated.\<close>

definition unreachable_services :: AuthServices where
  "unreachable_services =
     \<lparr> verify_token = (\<lambda>token. RequestFailed),
       verify_api_key = (\<lambda>apiKey. RequestFailed),
       check_access = (\<lambda>userID resourceType resourceName requiredLevel. RequestFailed) \<rparr>"

definition plain_request :: "string \<Rightarrow> Request" where
  "plain_request path =
     \<lparr> req_path = path, req_header = (\<lambda>name. []), req_query_api_key = [],
       req_cookie_api_key = None, req_client_ip = ''203.0.113.7'' \<rparr>"


definition sample_services :: "AccessCheckResponse reply \<Rightarrow> AuthServices" where
  "sample_services authz =
     \<lparr> verify_token = (\<lambda>token.
          Parsed \<lparr> tv_valid = (token = ''good-token''), tv_provider = ''local'',
                   tv_user_id = ''u2'', tv_email = ''u2@example.org'' \<rparr>),
       verify_api_key = (\<lambda>apiKey.
          Parsed \<lparr> ak_valid = (apiKey = ''good-key''), ak_key_id = ''k1'',
                   ak_organization_id = ''org1'', ak_name = ''ci'', ak_permissions = [''read''] \<rparr>),
       check_access = (\<lambda>userID resourceType resourceName requiredLevel. authz) \<rparr>"

definition access_denied :: "AccessCheckResponse reply" where
  "access_denied = Parsed \<lparr> ac_has_access = False, ac_user_access_level = [],
                             ac_permission_source = [], ac_subscription_tier = ''free'' \<rparr>"

definition bearer_request :: "string \<Rightarrow> string \<Rightarrow> Request" where
  "bearer_request path token =
     \<lparr> req_path = path,
       req_header = (\<lambda>name. if name = ''Authorization'' then ''Bearer '' @ token else []),
       req_query_api_key = [], req_cookie_api_key = None, req_client_ip = ''203.0.113.7'' \<rparr>"

definition api_key_request :: "string \<Rightarrow> string \<Rightarrow> Request" where
  "api_key_request path apiKey =
     \<lparr> req_path = path,
       req_header = (\<lambda>name. if name = ''X-API-Key'' then apiKey else []),
       req_query_api_key = [], req_cookie_api_key = None, req_client_ip = ''203.0.113.7'' \<rparr>"

definition sample_registry :: ConsulRegistry where
  "sample_registry =
     \<lparr> agent_services = Some [],
       health_catalog = Some
         [\<lparr> entry_service = \<lparr> svc_id = ''mcp-0'', svc_service = ''mcp'', svc_address = ''10.0.0.6'',
                              svc_port = 8081, svc_tags = [''mcp'', ''sse''] \<rparr>,
            entry_passing = False \<rparr>,
          \<lparr> entry_service = \<lparr> svc_id = ''users-1'', svc_service = ''users'', svc_address = ''10.0.0.5'',
                              svc_port = 8201, svc_tags = [''api''] \<rparr>,
            entry_passing = True \<rparr>,
          \<lparr> entry_service = \<lparr> svc_id = ''mcp-1'', svc_service = ''mcp'', svc_address = ''10.0.0.7'',
                              svc_port = 8081, svc_tags = [''mcp'', ''sse''] \<rparr>,
            entry_passing = True \<rparr>] \<rparr>"

definition empty_registry :: ConsulRegistry where
  "empty_registry = \<lparr> agent_services = Some [], health_catalog = Some [] \<rparr>"

definition sample_proxy :: DynamicProxy where
  "sample_proxy =
     \<lparr> dp_registry = Some sample_registry,
       dp_proxies = [''auth'' \<mapsto> ''http://localhost:8202''] \<rparr>"

definition bearer_and_key_request :: "string \<Rightarrow> string \<Rightarrow> string \<Rightarrow> Request" where
  "bearer_and_key_request path token apiKey =
     \<lparr> req_path = path,
       req_header = (\<lambda>name. if name = ''Authorization'' then ''Bearer '' @ token
                           else if name = ''X-API-Key'' then apiKey else []),
       req_query_api_key = [], req_cookie_api_key = None, req_client_ip = ''203.0.113.7'' \<rparr>"

text \<open>An authority parser for the sample targets: host names and addresses with a port.\<close>

definition plain_authority :: "string \<Rightarrow> bool" where
  "plain_authority a =
     list_all (\<lambda>c. c \<in> set ''abcdefghijklmnopqrstuvwxyz0123456789.-:'') a"

definition accept_request :: "string \<Rightarrow> string \<Rightarrow> Request" where
  "accept_request path accept =
     \<lparr> req_path = path,
       req_header = (\<lambda>name. if name = ''Accept'' then accept else []),
       req_query_api_key = [], req_cookie_api_key = None, req_client_ip = ''203.0.113.7'' \<rparr>"










section \<open>Properties of the string helpers\<close>

lemma HasPrefix_append: "HasPrefix s pre \<longleftrightarrow> (\<exists>rest. s = pre @ rest)"
  unfolding HasPrefix_def
  by (metis append_eq_conv_conj append_take_drop_id length_append le_add1)


section \<open>Properties of the authentication middleware\<close>

lemma keys_Next [simp]: "keys (Next c) = keys c"
  by (simp add: Next_def)

lemma keys_Set_key [simp]: "keys (Set_key k v c) = (keys c)(k \<mapsto> v)"
  by (simp add: Set_key_def)

lemma handlers_ran_Set_key [simp]: "handlers_ran (Set_key k v c) = handlers_ran c"
  by (simp add: Set_key_def)

lemma internal_auth_cases:
  "handleInternalServiceAuth consul req c = (b, c') \<Longrightarrow>
     (if b then keys c' ''user_id'' \<noteq> None else c' = c)"
  by (auto simp: handleInternalServiceAuth_def Let_def split: if_splits)

lemma checkResourcePermissions_keeps:
  "checkResourcePermissions env req u c = (b, c') \<Longrightarrow>
     handlers_ran c' = handlers_ran c \<and> aborted c' = aborted c \<and> written c' = written c
     \<and> (keys c ''user_id'' \<noteq> None \<longrightarrow> keys c' ''user_id'' \<noteq> None)"
  by (auto simp: checkResourcePermissions_def Let_def Set_key_def
           split: prod.splits if_splits reply.splits)

lemma jwt_auth_cases:
  "handleJWTAuth env req c = (b, c') \<Longrightarrow>
     (if b then keys c' ''user_id'' \<noteq> None else handlers_ran c' = handlers_ran c)"
  by (auto simp: handleJWTAuth_def Let_def JSON_def Abort_def
           split: if_splits list.splits reply.splits prod.splits
           dest!: checkResourcePermissions_keeps)

lemma apikey_auth_cases:
  "handleAPIKeyAuth env req c = (b, c') \<Longrightarrow>
     (if b then keys c' ''user_id'' \<noteq> None else handlers_ran c' = handlers_ran c)"
  by (auto simp: handleAPIKeyAuth_def Let_def split: if_splits reply.splits option.splits)

lemma not_public_not_anonymous:
  assumes "\<not> isPublicEndpoint (req_path req)" "\<not> handlers_ran c"
  shows "\<not> passed_anonymous (UnifiedAuthentication env consul req c)"
proof -
  obtain b1 c1 where i: "handleInternalServiceAuth consul req c = (b1, c1)" by fastforce
  obtain b2 c2 where j: "handleJWTAuth env req c1 = (b2, c2)" by fastforce
  obtain b3 c3 where k: "handleAPIKeyAuth env req c2 = (b3, c3)" by fastforce
  from internal_auth_cases[OF i] jwt_auth_cases[OF j] apikey_auth_cases[OF k] assms i j k
  show ?thesis
    by (auto simp: UnifiedAuthentication_def handleExternalAuth_def passed_anonymous_def
                   JSON_def Abort_def split: if_splits)
qed

lemma isPublicEndpoint_iff:
  "isPublicEndpoint path \<longleftrightarrow>
     HasPrefix path ''/health'' \<or> HasPrefix path ''/ready''
     \<or> HasPrefix path ''/api/v1/gateway/services''"
  by (simp add: isPublicEndpoint_def publicPaths_def)

text \<open>
  Claim C1, as the code has it. A request entering the unified authentication middleware
  with a fresh context is passed on as Anonymous (the chain continues, no principal is
  attached) exactly when its path starts with \<^verbatim>\<open>/health\<close>, starts with \<^verbatim>\<open>/ready\<close> or
  starts with \<^verbatim>\<open>/api/v1/gateway/services\<close>. All three entries are prefixes: the loop of
  \<^verbatim>\<open>isPublicEndpoint\<close> tests each of them with \<^verbatim>\<open>strings.HasPrefix\<close>.
\<close>

theorem public_bypass_by_prefix:
  "passed_anonymous (UnifiedAuthentication env consul req new_context) \<longleftrightarrow>
     (\<exists>rest. req_path req = ''/health'' @ rest) \<or> (\<exists>rest. req_path req = ''/ready'' @ rest)
     \<or> (\<exists>rest. req_path req = ''/api/v1/gateway/services'' @ rest)"
proof (cases "isPublicEndpoint (req_path req)")
  case True
  then show ?thesis
    unfolding HasPrefix_append[symmetric]
    by (simp add: isPublicEndpoint_iff UnifiedAuthentication_def passed_anonymous_def
                  Next_def new_context_def)
next
  case False
  have "\<not> handlers_ran new_context" by (simp add: new_context_def)
  from not_public_not_anonymous[OF False this] False show ?thesis
    by (simp add: isPublicEndpoint_iff HasPrefix_append)
qed

theorem public_bypass_by_prefix_witness:
  "passed_anonymous
     (UnifiedAuthentication unreachable_services None (plain_request ''/ready'') new_context)
   \<and> \<not> passed_anonymous
     (UnifiedAuthentication unreachable_services None (plain_request ''/api/v1/mcp/search'')
        new_context)"
  using public_bypass_by_prefix [of unreachable_services None "plain_request ''/ready''"]
        public_bypass_by_prefix [of unreachable_services None
                                   "plain_request ''/api/v1/mcp/search''"]
  by (simp add: plain_request_def)

text \<open>
  Claim C1 as stated requires the path to be exactly \<^verbatim>\<open>/health\<close> or \<^verbatim>\<open>/ready\<close>. The path
  \<^verbatim>\<open>/healthz\<close> is none of the three documented cases, yet it is bypassed.
\<close>

theorem public_bypass_exact_counterexample:
  "passed_anonymous
     (UnifiedAuthentication unreachable_services None (plain_request ''/healthz'') new_context)
   \<and> \<not> (req_path (plain_request ''/healthz'') = ''/health''
         \<or> req_path (plain_request ''/healthz'') = ''/ready''
         \<or> HasPrefix (req_path (plain_request ''/healthz'')) ''/api/v1/gateway/services'')"
  by (simp add: UnifiedAuthentication_def isPublicEndpoint_def publicPaths_def HasPrefix_def
                plain_request_def passed_anonymous_def Next_def new_context_def)


section \<open>Properties of the authorization gate, the router and the registry\<close>

lemma SplitN2_Bearer: "SplitN2 (''Bearer '' @ token) CHR '' '' = [''Bearer'', token]"
  by (simp add: SplitN2_def)

lemma jwt_flow_verified:
  assumes "req_header req ''Authorization'' = ''Bearer '' @ token" "token \<noteq> []"
      and "verify_token env token = Parsed tr" "tv_valid tr"
  shows "handleJWTAuth env req c =
     (let c2 = Set_key ''auth_method'' (VStr ''jwt'')
              (Set_key ''is_internal'' (VBool False)
              (Set_key ''provider'' (VStr (tv_provider tr))
              (Set_key ''email'' (VStr (tv_email tr))
              (Set_key ''user_id'' (VStr (tv_user_id tr))
                 (c\<lparr> identity_calls := Suc (identity_calls c) \<rparr>)))))
      in case checkResourcePermissions env req (tv_user_id tr) c2 of
           (hasResourceAccess, c3) \<Rightarrow>
             if hasResourceAccess then (True, Next c3)
             else (False, Abort (JSON 403 forbidden_body c3)))"
  using assms by (simp add: handleJWTAuth_def SplitN2_def Let_def)

lemma gate_request_failed:
  assumes "getResourceInfoFromPath (req_path req) = (rt, rn, rl)" "rt \<noteq> []" "rl \<noteq> []"
      and "check_access env u rt rn rl = RequestFailed"
  shows "checkResourcePermissions env req u c = (True, c\<lparr> authz_calls := Suc (authz_calls c) \<rparr>)"
  using assms by (simp add: checkResourcePermissions_def)

lemma gate_denied:
  assumes "getResourceInfoFromPath (req_path req) = (rt, rn, rl)" "rt \<noteq> []" "rl \<noteq> []"
      and "check_access env u rt rn rl = Parsed ar" "\<not> ac_has_access ar"
  shows "checkResourcePermissions env req u c = (False, c\<lparr> authz_calls := Suc (authz_calls c) \<rparr>)"
  using assms by (simp add: checkResourcePermissions_def)

lemma gate_counts_once:
  assumes "getResourceInfoFromPath (req_path req) = (rt, rn, rl)" "rt \<noteq> []" "rl \<noteq> []"
  shows "authz_calls (snd (checkResourcePermissions env req u c)) = Suc (authz_calls c)"
  using assms by (simp add: checkResourcePermissions_def Set_key_def Let_def split: reply.splits)

lemma middleware_external:
  assumes "\<not> isPublicEndpoint (req_path req)"
      and "\<not> fst (handleInternalServiceAuth consul req c)"
  shows "UnifiedAuthentication env consul req c =
     (case handleExternalAuth env req c of
        (authenticated, c2) \<Rightarrow>
          if authenticated then c2 else Abort (JSON 401 unauthorized_body c2))"
proof -
  obtain b c1 where i: "handleInternalServiceAuth consul req c = (b, c1)" by fastforce
  with assms(2) have "b = False" by simp
  with internal_auth_cases[OF i] have "c1 = c" by simp
  with i \<open>b = False\<close> assms(1) show ?thesis
    by (simp add: UnifiedAuthentication_def)
qed

text \<open>
  Claim C3. A request that reaches the JWT flow with a verified token and a path whose
  resource selector is not empty: when the call to \<^verbatim>\<open>/check-access\<close> fails at the transport
  level, the request proceeds (the rest of the chain runs, nothing is written, nothing is
  aborted); when the service answers \<^verbatim>\<open>has_access = false\<close>, the response has status 403,
  its first body is the \<^verbatim>\<open>insufficient permissions\<close> object, the context is aborted and the
  rest of the chain (the proxy to the upstream service) never runs.
\<close>

theorem jwt_gate:
  assumes np: "\<not> isPublicEndpoint (req_path req)"
      and ni: "\<not> fst (handleInternalServiceAuth consul req new_context)"
      and hdr: "req_header req ''Authorization'' = ''Bearer '' @ token" and tok: "token \<noteq> []"
      and ver: "verify_token env token = Parsed tr" and valid: "tv_valid tr"
      and sel: "getResourceInfoFromPath (req_path req) = (rt, rn, rl)"
      and rt: "rt \<noteq> []" and rl: "rl \<noteq> []"
  shows "(check_access env (tv_user_id tr) rt rn rl = RequestFailed \<longrightarrow>
            handlers_ran (UnifiedAuthentication env consul req new_context)
            \<and> \<not> aborted (UnifiedAuthentication env consul req new_context)
            \<and> written (UnifiedAuthentication env consul req new_context) = [])
       \<and> (\<forall>ar. check_access env (tv_user_id tr) rt rn rl = Parsed ar \<and> \<not> ac_has_access ar \<longrightarrow>
            response_status (UnifiedAuthentication env consul req new_context) = Some 403
            \<and> take 1 (written (UnifiedAuthentication env consul req new_context))
                = [(403, [(''error'', ''insufficient permissions''),
                          (''message'', ''user does not have permission to access this resource'')])]
            \<and> aborted (UnifiedAuthentication env consul req new_context)
            \<and> \<not> handlers_ran (UnifiedAuthentication env consul req new_context))"
proof (intro conjI impI allI)
  assume f: "check_access env (tv_user_id tr) rt rn rl = RequestFailed"
  have j: "handleJWTAuth env req new_context = (True, Next (Set_key ''auth_method'' (VStr ''jwt'')
              (Set_key ''is_internal'' (VBool False)
              (Set_key ''provider'' (VStr (tv_provider tr))
              (Set_key ''email'' (VStr (tv_email tr))
              (Set_key ''user_id'' (VStr (tv_user_id tr))
                 (new_context\<lparr> identity_calls := Suc (identity_calls new_context) \<rparr>)))))
                 \<lparr> authz_calls := Suc 0 \<rparr>))"
    by (simp add: jwt_flow_verified[OF hdr tok ver valid] gate_request_failed[OF sel rt rl f] Let_def)
       (simp add: Set_key_def new_context_def)
  have u: "UnifiedAuthentication env consul req new_context = snd (handleJWTAuth env req new_context)"
    by (simp add: middleware_external[OF np ni] handleExternalAuth_def j)
  show "handlers_ran (UnifiedAuthentication env consul req new_context)"
    unfolding u j by (simp add: Next_def Set_key_def new_context_def)
  show "\<not> aborted (UnifiedAuthentication env consul req new_context)"
    unfolding u j by (simp add: Next_def Set_key_def new_context_def)
  show "written (UnifiedAuthentication env consul req new_context) = []"
    unfolding u j by (simp add: Next_def Set_key_def new_context_def)
next
  fix ar
  assume "check_access env (tv_user_id tr) rt rn rl = Parsed ar \<and> \<not> ac_has_access ar"
  then have d: "check_access env (tv_user_id tr) rt rn rl = Parsed ar" "\<not> ac_has_access ar" by simp_all
  obtain c3 where j: "handleJWTAuth env req new_context = (False, Abort (JSON 403 forbidden_body c3))"
     and c3: "written c3 = []" "\<not> handlers_ran c3"
    by (simp add: jwt_flow_verified[OF hdr tok ver valid] gate_denied[OF sel rt rl d] Let_def Set_key_def new_context_def)
  obtain b c4 where k: "handleAPIKeyAuth env req (Abort (JSON 403 forbidden_body c3)) = (b, c4)"
    by fastforce
  have k': "written c4 = [(403, forbidden_body)] \<and> aborted c4 \<and> \<not> handlers_ran c4"
    using k c3
    by (auto simp: handleAPIKeyAuth_def Let_def Abort_def JSON_def Next_def Set_key_def
             split: if_splits reply.splits option.splits)
  have u: "UnifiedAuthentication env consul req new_context =
             (if b then c4 else Abort (JSON 401 unauthorized_body c4))"
    by (simp add: middleware_external[OF np ni] handleExternalAuth_def j k)
  show "response_status (UnifiedAuthentication env consul req new_context) = Some 403"
    unfolding u using k' by (simp add: response_status_def Abort_def JSON_def)
  show "take 1 (written (UnifiedAuthentication env consul req new_context))
                = [(403, [(''error'', ''insufficient permissions''),
                          (''message'', ''user does not have permission to access this resource'')])]"
    unfolding u using k' by (simp add: Abort_def JSON_def forbidden_body_def)
  show "aborted (UnifiedAuthentication env consul req new_context)"
    unfolding u using k' by (simp add: Abort_def JSON_def)
  show "\<not> handlers_ran (UnifiedAuthentication env consul req new_context)"
    unfolding u using k' by (simp add: Abort_def JSON_def)
qed


theorem jwt_gate_witness:
  "handlers_ran (UnifiedAuthentication (sample_services RequestFailed) None
       (bearer_request ''/api/v1/mcp/tools/call'' ''good-token'') new_context)
   \<and> written (UnifiedAuthentication (sample_services RequestFailed) None
       (bearer_request ''/api/v1/mcp/tools/call'' ''good-token'') new_context) = []
   \<and> response_status (UnifiedAuthentication (sample_services access_denied) None
       (bearer_request ''/api/v1/mcp/tools/call'' ''good-token'') new_context) = Some 403
   \<and> \<not> handlers_ran (UnifiedAuthentication (sample_services access_denied) None
       (bearer_request ''/api/v1/mcp/tools/call'' ''good-token'') new_context)"
proof -
  let ?req = "bearer_request ''/api/v1/mcp/tools/call'' ''good-token''"
  let ?tr = "\<lparr> tv_valid = True, tv_provider = ''local'', tv_user_id = ''u2'',
               tv_email = ''u2@example.org'' \<rparr>"
  let ?ar = "\<lparr> ac_has_access = False, ac_user_access_level = [],
               ac_permission_source = [], ac_subscription_tier = ''free'' \<rparr>"
  have np: "\<not> isPublicEndpoint (req_path ?req)"
    by (simp add: bearer_request_def isPublicEndpoint_def publicPaths_def HasPrefix_def)
  have ni: "\<not> fst (handleInternalServiceAuth None ?req new_context)"
    by (simp add: bearer_request_def handleInternalServiceAuth_def isLocalhost_def HasPrefix_def)
  have hdr: "req_header ?req ''Authorization'' = ''Bearer '' @ ''good-token''"
    by (simp add: bearer_request_def)
  have tok: "''good-token'' \<noteq> []" by simp
  have ver: "verify_token (sample_services a) ''good-token'' = Parsed ?tr" for a
    by (simp add: sample_services_def)
  have valid: "tv_valid ?tr" by simp
  have sel: "getResourceInfoFromPath (req_path ?req)
               = (''mcp_tool'', ''tool_execution'', ''read_write'')"
    by (simp add: bearer_request_def getResourceInfoFromPath_def extractMCPResource_def
                  getMCPAccessLevel_def HasPrefix_def)
  have rt: "''mcp_tool'' \<noteq> []" and rl: "''read_write'' \<noteq> []" by simp_all
  have failed: "check_access (sample_services RequestFailed) (tv_user_id ?tr)
                  ''mcp_tool'' ''tool_execution'' ''read_write'' = RequestFailed"
    by (simp add: sample_services_def)
  have denied: "check_access (sample_services access_denied) (tv_user_id ?tr)
                  ''mcp_tool'' ''tool_execution'' ''read_write'' = Parsed ?ar \<and> \<not> ac_has_access ?ar"
    by (simp add: sample_services_def access_denied_def)
  from jwt_gate [OF np ni hdr tok ver valid sel rt rl, of RequestFailed] failed
       jwt_gate [OF np ni hdr tok ver valid sel rt rl, of access_denied] denied
  show ?thesis by blast
qed




lemma authz_calls_simps [simp]:
  "authz_calls (Next c) = authz_calls c"
  "authz_calls (Abort c) = authz_calls c"
  "authz_calls (JSON code obj c) = authz_calls c"
  "authz_calls (Set_key k v c) = authz_calls c"
  by (simp_all add: Next_def Abort_def JSON_def Set_key_def)

lemma apikey_flow_effects:
  "handleAPIKeyAuth env req c = (b, c') \<Longrightarrow>
     authz_calls c' = authz_calls c \<and> aborted c' = aborted c
     \<and> (aborted c \<longrightarrow> handlers_ran c' = handlers_ran c)
     \<and> (\<not> b \<longrightarrow> handlers_ran c' = handlers_ran c)"
  by (auto simp: handleAPIKeyAuth_def Let_def Next_def Set_key_def
           split: if_splits reply.splits option.splits)

lemma internal_flow_effects:
  "handleInternalServiceAuth consul req c = (b, c') \<Longrightarrow>
     authz_calls c' = authz_calls c \<and> keys c' ''auth_method'' = keys c ''auth_method''"
  by (auto simp: handleInternalServiceAuth_def Let_def split: if_splits)

lemma gate_effects:
  "checkResourcePermissions env req u c = (b, c') \<Longrightarrow>
     keys c' ''auth_method'' = keys c ''auth_method'' \<and> aborted c' = aborted c
     \<and> handlers_ran c' = handlers_ran c"
  by (auto simp: checkResourcePermissions_def Let_def Set_key_def
           split: prod.splits if_splits reply.splits)

lemma jwt_flow_effects:
  "handleJWTAuth env req c = (b, c') \<Longrightarrow>
     (b \<longrightarrow> keys c' ''auth_method'' = Some (VStr ''jwt''))
     \<and> (\<not> b \<longrightarrow> handlers_ran c' = handlers_ran c
                  \<and> (authz_calls c' = authz_calls c \<or> aborted c'))"
  by (auto simp: handleJWTAuth_def Let_def JSON_def Abort_def
           split: if_splits list.splits reply.splits prod.splits
           dest!: gate_effects)

lemma api_key_admitted_no_authz:
  assumes ran: "handlers_ran (UnifiedAuthentication env consul req new_context)"
      and key: "keys (UnifiedAuthentication env consul req new_context) ''auth_method''
                  = Some (VStr ''api_key'')"
  shows "authz_calls (UnifiedAuthentication env consul req new_context) = 0"
proof -
  obtain b1 c1 where i: "handleInternalServiceAuth consul req new_context = (b1, c1)" by fastforce
  obtain b2 c2 where j: "handleJWTAuth env req c1 = (b2, c2)" by fastforce
  obtain b3 c3 where k: "handleAPIKeyAuth env req c2 = (b3, c3)" by fastforce
  have n: "keys new_context ''auth_method'' = None" "authz_calls new_context = 0"
          "\<not> handlers_ran new_context"
    by (simp_all add: new_context_def)
  show ?thesis
  proof (cases "isPublicEndpoint (req_path req)")
    case True
    with key n show ?thesis by (simp add: UnifiedAuthentication_def)
  next
    case False
    note np = this
    show ?thesis
    proof (cases b1)
      case True
      with np i key internal_flow_effects[OF i] n show ?thesis
        by (simp add: UnifiedAuthentication_def)
    next
      case False
      with internal_auth_cases[OF i] have c1: "c1 = new_context" by simp
      show ?thesis
      proof (cases b2)
        case True
        with np i \<open>\<not> b1\<close> j key jwt_flow_effects[OF j] show ?thesis
          by (simp add: UnifiedAuthentication_def handleExternalAuth_def)
      next
        case False
        note nb2 = this
        from jwt_flow_effects[OF j] nb2 c1 n
        have j': "\<not> handlers_ran c2" "authz_calls c2 = 0 \<or> aborted c2" by simp_all
        show ?thesis
        proof (cases b3)
          case True
          with np i \<open>\<not> b1\<close> j nb2 k
          have u: "UnifiedAuthentication env consul req new_context = c3"
            by (simp add: UnifiedAuthentication_def handleExternalAuth_def)
          from apikey_flow_effects[OF k] j' ran u show ?thesis by auto
        next
          case False
          with np i \<open>\<not> b1\<close> j nb2 k
          have u: "UnifiedAuthentication env consul req new_context
                     = Abort (JSON 401 unauthorized_body c3)"
            by (simp add: UnifiedAuthentication_def handleExternalAuth_def)
          from apikey_flow_effects[OF k] j' False ran u show ?thesis
            by (simp add: Abort_def JSON_def)
        qed
      qed
    qed
  qed
qed

lemma jwt_flow_counts_once:
  assumes hdr: "req_header req ''Authorization'' = ''Bearer '' @ token" and tok: "token \<noteq> []"
      and ver: "verify_token env token = Parsed tr" and valid: "tv_valid tr"
      and sel: "selector_nonempty (req_path req)"
  shows "authz_calls (snd (handleJWTAuth env req c)) = Suc (authz_calls c)"
proof -
  obtain rt rn rl where t: "getResourceInfoFromPath (req_path req) = (rt, rn, rl)"
    by (metis prod_cases3)
  with sel have ne: "rt \<noteq> []" "rl \<noteq> []"
    by (auto simp: selector_nonempty_def split: if_splits)
  let ?c2 = "Set_key ''auth_method'' (VStr ''jwt'')
              (Set_key ''is_internal'' (VBool False)
              (Set_key ''provider'' (VStr (tv_provider tr))
              (Set_key ''email'' (VStr (tv_email tr))
              (Set_key ''user_id'' (VStr (tv_user_id tr))
                 (c\<lparr> identity_calls := Suc (identity_calls c) \<rparr>)))))"
  obtain b c3 where g: "checkResourcePermissions env req (tv_user_id tr) ?c2 = (b, c3)"
    by fastforce
  from gate_counts_once[OF t ne, of env "tv_user_id tr" ?c2] g
  have "authz_calls c3 = Suc (authz_calls c)" by simp
  then show ?thesis
    by (simp add: jwt_flow_verified[OF hdr tok ver valid] Let_def g)
qed

text \<open>
  Claim C4, at an input where the code departs from it. The request carries a token that
  verifies, for a path whose resource selector is not empty, and a valid API key; the
  authorization service denies access. The JWT flow makes the authorization call, answers
  403 and returns false, so the API-key flow runs and authenticates the request: it ends
  with \<open>auth_method = api_key\<close> although one authorization call was made for it.
\<close>

theorem api_key_after_denied_token:
  "fst (handleExternalAuth (sample_services access_denied)
          (bearer_and_key_request ''/api/v1/mcp/tools/call'' ''good-token'' ''good-key'')
          new_context)
   \<and> keys (UnifiedAuthentication (sample_services access_denied) None
          (bearer_and_key_request ''/api/v1/mcp/tools/call'' ''good-token'' ''good-key'')
          new_context) ''auth_method'' = Some (VStr ''api_key'')
   \<and> authz_calls (UnifiedAuthentication (sample_services access_denied) None
          (bearer_and_key_request ''/api/v1/mcp/tools/call'' ''good-token'' ''good-key'')
          new_context) = 1
   \<and> response_status (UnifiedAuthentication (sample_services access_denied) None
          (bearer_and_key_request ''/api/v1/mcp/tools/call'' ''good-token'' ''good-key'')
          new_context) = Some 403"
  by (simp add: UnifiedAuthentication_def bearer_and_key_request_def isPublicEndpoint_def
                publicPaths_def HasPrefix_def handleInternalServiceAuth_def isLocalhost_def
                handleExternalAuth_def handleJWTAuth_def handleAPIKeyAuth_def SplitN2_def
                checkResourcePermissions_def getResourceInfoFromPath_def
                extractMCPResource_def getMCPAccessLevel_def
                sample_services_def access_denied_def Next_def Abort_def JSON_def Set_key_def
                new_context_def response_status_def)

text \<open>
  Claim C7, as the code has it. \<^verbatim>\<open>DiscoverService\<close> returns the instances of the passing
  catalog entries of the service and nothing else; when there is none it returns the
  error \<^verbatim>\<open>no healthy instances found for service\<close>, never an empty list.
  \<^verbatim>\<open>GetHealthyInstance\<close> returns the first of these instances and hands the error of
  \<^verbatim>\<open>DiscoverService\<close> on when there is none.
\<close>

theorem registry_lookup:
  "DiscoverService r name =
     (case health_catalog r of
        None \<Rightarrow> Inl DiscoverFailed
      | Some entries \<Rightarrow>
          (if filter (\<lambda>e. svc_service (entry_service e) = name \<and> entry_passing e) entries = []
           then Inl (NoHealthyInstances name)
           else Inr (map instance_of
                  (filter (\<lambda>e. svc_service (entry_service e) = name \<and> entry_passing e) entries))))
   \<and> GetHealthyInstance r name =
     (case health_catalog r of
        None \<Rightarrow> Inl DiscoverFailed
      | Some entries \<Rightarrow>
          (if filter (\<lambda>e. svc_service (entry_service e) = name \<and> entry_passing e) entries = []
           then Inl (NoHealthyInstances name)
           else Inr (instance_of
                  (hd (filter (\<lambda>e. svc_service (entry_service e) = name \<and> entry_passing e) entries)))))
   \<and> DiscoverService r name \<noteq> Inr []"
  by (auto simp: DiscoverService_def GetHealthyInstance_def Health_Service_def
           split: option.splits list.splits)

theorem registry_lookup_witness:
  "GetHealthyInstance sample_registry ''mcp''
     = Inr \<lparr> inst_id = ''mcp-1'', inst_name = ''mcp'', inst_host = ''10.0.0.7'', inst_port = 8081,
             inst_tags = [''mcp'', ''sse''] \<rparr>
   \<and> DiscoverService sample_registry ''agents'' = Inl (NoHealthyInstances ''agents'')"
  using registry_lookup [of sample_registry "''mcp''"] registry_lookup [of sample_registry "''agents''"]
  by (simp add: sample_registry_def instance_of_def)

text \<open>
  Claim C7 as stated takes an empty listing for a valid outcome without error. On a
  catalog without entries \<^verbatim>\<open>DiscoverService\<close> returns an error.
\<close>

theorem discover_empty_counterexample:
  "DiscoverService empty_registry ''users'' = Inl (NoHealthyInstances ''users'')
   \<and> DiscoverService empty_registry ''users'' \<noteq> Inr []"
  by (simp add: DiscoverService_def Health_Service_def empty_registry_def)


lemma Contains_iff: "Contains s sub \<longleftrightarrow> (\<exists>a b. s = a @ sub @ b)"
proof (induction s)
  case Nil
  show ?case by simp
next
  case (Cons c cs)
  have "(\<exists>a b. c # cs = a @ sub @ b) \<longleftrightarrow> (\<exists>b. c # cs = sub @ b) \<or> (\<exists>a b. cs = a @ sub @ b)"
  proof
    assume "\<exists>a b. c # cs = a @ sub @ b"
    then obtain a b where ab: "c # cs = a @ sub @ b" by blast
    show "(\<exists>b. c # cs = sub @ b) \<or> (\<exists>a b. cs = a @ sub @ b)"
    proof (cases a)
      case Nil
      with ab show ?thesis by auto
    next
      case (Cons x a')
      with ab have "cs = a' @ sub @ b" by simp
      then show ?thesis by blast
    qed
  next
    assume "(\<exists>b. c # cs = sub @ b) \<or> (\<exists>a b. cs = a @ sub @ b)"
    then show "\<exists>a b. c # cs = a @ sub @ b"
    proof
      assume "\<exists>b. c # cs = sub @ b"
      then obtain b where "c # cs = [] @ sub @ b" by auto
      then show ?thesis by blast
    next
      assume "\<exists>a b. cs = a @ sub @ b"
      then obtain a b where "c # cs = (c # a) @ sub @ b" by auto
      then show ?thesis by blast
    qed
  qed
  with Cons show ?case by (simp add: HasPrefix_append)
qed

lemma hasSSE_iff: "hasSSE tags \<longleftrightarrow> ''sse'' \<in> set tags \<or> ''streaming'' \<in> set tags"
  by (induction tags) auto












lemma proxyHTTP_path_same: "proxyHTTP_path path = proxySSE_path path"
  by (simp add: proxyHTTP_path_def proxySSE_path_def)










lemma sse_proxy_forwarded:
  assumes "DynamicProxy_Handler dp req = RunSSEProxy t"
  shows "forwarded_path parseAuthority dp req rawQuery =
           Some (case url_Parse parseAuthority
                        (sse_request_url t (proxySSE_path (req_path req)) rawQuery) of
                   None \<Rightarrow> RequestNotBuilt
                 | Some u \<Rightarrow> Sent (url_Path u))"
  using assms
  by (cases "SSEProxy_Handler req") (simp_all add: forwarded_path_def proxyHTTP_path_same)




lemma sample_targets:
  "target_url ''10.0.0.7'' 8081 = ''http://'' @ ''10.0.0.7:8081''"
  "target_url ''10.0.0.5'' 8201 = ''http://'' @ ''10.0.0.5:8201''"
  by (simp_all add: target_url_def format_int_def decimal.simps digit_char_def)






text \<open>
  The SSE proxy parses the URL it has pasted together, so a decoded \<^verbatim>\<open>?\<close> in the rewritten
  path starts the query, a decoded \<^verbatim>\<open>%41\<close> is unescaped once more, and a control byte
  keeps the request from being built.
\<close>

lemma sse_proxy_reparses_path:
  "forwarded_path plain_authority sample_proxy
      (accept_request ''/api/v1/mcp/a?b'' ''text/event-stream'') [] = Some (Sent ''/a'')"
  "forwarded_path plain_authority sample_proxy
      (accept_request ''/api/v1/mcp/a%41'' ''text/event-stream'') [] = Some (Sent ''/aA'')"
  "forwarded_path plain_authority sample_proxy
      (accept_request (''/api/v1/mcp/a'' @ [CHR 0x0A] @ ''b'') ''text/event-stream'') []
     = Some RequestNotBuilt"
proof -
  have r1: "DynamicProxy_Handler sample_proxy
              (accept_request ''/api/v1/mcp/a?b'' ''text/event-stream'')
              = RunSSEProxy (target_url ''10.0.0.7'' 8081)"
    by (simp add: DynamicProxy_Handler_def accept_request_def HasPrefix_def logical_service_def
                  TrimPrefix_def discover_instance_def sample_proxy_def sample_registry_def
                  GetHealthyInstance_def DiscoverService_def Health_Service_def instance_of_def)
  have r2: "DynamicProxy_Handler sample_proxy
              (accept_request ''/api/v1/mcp/a%41'' ''text/event-stream'')
              = RunSSEProxy (target_url ''10.0.0.7'' 8081)"
    by (simp add: DynamicProxy_Handler_def accept_request_def HasPrefix_def logical_service_def
                  TrimPrefix_def discover_instance_def sample_proxy_def sample_registry_def
                  GetHealthyInstance_def DiscoverService_def Health_Service_def instance_of_def)
  have r3: "DynamicProxy_Handler sample_proxy
              (accept_request (''/api/v1/mcp/a'' @ [CHR 0x0A] @ ''b'') ''text/event-stream'')
              = RunSSEProxy (target_url ''10.0.0.7'' 8081)"
    by (simp add: DynamicProxy_Handler_def accept_request_def HasPrefix_def logical_service_def
                  TrimPrefix_def discover_instance_def sample_proxy_def sample_registry_def
                  GetHealthyInstance_def DiscoverService_def Health_Service_def instance_of_def)
  have A: "char_of (65::nat) = CHR ''A''"
    by (simp add: char_of_def bit_Suc_0_iff)
  show "forwarded_path plain_authority sample_proxy
      (accept_request ''/api/v1/mcp/a?b'' ''text/event-stream'') [] = Some (Sent ''/a'')"
    unfolding sse_proxy_forwarded[OF r1] sample_targets
    by (simp add: accept_request_def proxySSE_path_def HasPrefix_def TrimPrefix_def SplitN2_def
                  sse_request_url_def url_Parse_def isCTL_def plain_authority_def)
  show "forwarded_path plain_authority sample_proxy
      (accept_request ''/api/v1/mcp/a%41'' ''text/event-stream'') [] = Some (Sent ''/aA'')"
    unfolding sse_proxy_forwarded[OF r2] sample_targets
    by (simp add: accept_request_def proxySSE_path_def HasPrefix_def TrimPrefix_def SplitN2_def
                  sse_request_url_def url_Parse_def isCTL_def plain_authority_def
                  ishex_def unhex_def A)
  show "forwarded_path plain_authority sample_proxy
      (accept_request (''/api/v1/mcp/a'' @ [CHR 0x0A] @ ''b'') ''text/event-stream'') []
     = Some RequestNotBuilt"
    unfolding sse_proxy_forwarded[OF r3] sample_targets
    by (simp add: accept_request_def proxySSE_path_def HasPrefix_def TrimPrefix_def SplitN2_def
                  sse_request_url_def url_Parse_def isCTL_def plain_authority_def)
qed


text \<open>
  Claim C5. For a request routed to an instance found in the registry, the router runs
  the SSE proxy exactly when the instance's tags contain \<^verbatim>\<open>sse\<close> or \<^verbatim>\<open>streaming\<close>, and the
  plain reverse proxy otherwise. Inside the SSE proxy the buffered branch \<^verbatim>\<open>proxyHTTP\<close> is
  taken exactly when the \<^verbatim>\<open>Accept\<close> header contains neither \<^verbatim>\<open>text/event-stream\<close> nor
  \<^verbatim>\<open>*/*\<close>; the upstream response is then copied, whatever its content type.
\<close>

theorem sse_strategy_selection:
  assumes api: "HasPrefix (req_path req) ''/api/v1/''"
      and ngw: "\<not> HasPrefix (req_path req) ''/api/v1/gateway/''"
      and name: "logical_service (req_path req) = Some name"
      and inst: "discover_instance dp name = Some inst"
  shows "(DynamicProxy_Handler dp req = RunSSEProxy (target_url (inst_host inst) (inst_port inst))
            \<longleftrightarrow> ''sse'' \<in> set (inst_tags inst) \<or> ''streaming'' \<in> set (inst_tags inst))
       \<and> (DynamicProxy_Handler dp req = RunReverseProxy (target_url (inst_host inst) (inst_port inst))
            \<longleftrightarrow> \<not> (''sse'' \<in> set (inst_tags inst) \<or> ''streaming'' \<in> set (inst_tags inst)))
       \<and> (SSEProxy_Handler req = ProxyHTTP
            \<longleftrightarrow> \<not> (\<exists>a b. req_header req ''Accept'' = a @ ''text/event-stream'' @ b)
                \<and> \<not> (\<exists>a b. req_header req ''Accept'' = a @ ''*/*'' @ b))
       \<and> (SSEProxy_Handler req = ProxyHTTP
            \<longrightarrow> SSEProxy_serve req (Responded resp) w = copyResponse resp w)
       \<and> (SSEProxy_Handler req = ProxySSE
            \<longrightarrow> SSEProxy_serve req up w = proxySSE up w)"
proof -
  have h: "DynamicProxy_Handler dp req =
             (if hasSSE (inst_tags inst)
              then RunSSEProxy (target_url (inst_host inst) (inst_port inst))
              else RunReverseProxy (target_url (inst_host inst) (inst_port inst)))"
    using assms by (simp add: DynamicProxy_Handler_def Let_def)
  have s: "SSEProxy_Handler req = ProxyHTTP
            \<longleftrightarrow> \<not> (\<exists>a b. req_header req ''Accept'' = a @ ''text/event-stream'' @ b)
                \<and> \<not> (\<exists>a b. req_header req ''Accept'' = a @ ''*/*'' @ b)"
    unfolding Contains_iff[symmetric] by (simp add: SSEProxy_Handler_def Let_def)
  have v: "SSEProxy_Handler req = ProxyHTTP
            \<longrightarrow> SSEProxy_serve req (Responded resp) w = copyResponse resp w"
    by (simp add: SSEProxy_serve_def proxyHTTP_def)
  have e: "SSEProxy_Handler req = ProxySSE \<longrightarrow> SSEProxy_serve req up w = proxySSE up w"
    by (simp add: SSEProxy_serve_def)
  have t: "(DynamicProxy_Handler dp req = RunSSEProxy (target_url (inst_host inst) (inst_port inst)))
             = hasSSE (inst_tags inst)"
          "(DynamicProxy_Handler dp req = RunReverseProxy (target_url (inst_host inst) (inst_port inst)))
             = (\<not> hasSSE (inst_tags inst))"
    unfolding h by simp_all
  show ?thesis
    unfolding t hasSSE_iff[symmetric]
    using s v e by blast
qed

theorem sse_strategy_selection_witness:
  "DynamicProxy_Handler sample_proxy (accept_request ''/api/v1/mcp/tools/call'' ''application/json'')
     = RunSSEProxy (target_url ''10.0.0.7'' 8081)
   \<and> SSEProxy_Handler (accept_request ''/api/v1/mcp/tools/call'' ''application/json'') = ProxyHTTP
   \<and> DynamicProxy_Handler sample_proxy (accept_request ''/api/v1/users/me'' ''*/*'')
     = RunReverseProxy (target_url ''10.0.0.5'' 8201)"
proof -
  let ?mcp = "\<lparr> inst_id = ''mcp-1'', inst_name = ''mcp'', inst_host = ''10.0.0.7'',
                inst_port = 8081, inst_tags = [''mcp'', ''sse''] \<rparr>"
  let ?users = "\<lparr> inst_id = ''users-1'', inst_name = ''users'', inst_host = ''10.0.0.5'',
                  inst_port = 8201, inst_tags = [''api''] \<rparr>"
  let ?r1 = "accept_request ''/api/v1/mcp/tools/call'' ''application/json''"
  let ?r2 = "accept_request ''/api/v1/users/me'' ''*/*''"
  have api1: "HasPrefix (req_path ?r1) ''/api/v1/''"
   and ngw1: "\<not> HasPrefix (req_path ?r1) ''/api/v1/gateway/''"
   and name1: "logical_service (req_path ?r1) = Some ''mcp''"
    by (simp_all add: accept_request_def HasPrefix_def logical_service_def TrimPrefix_def)
  have inst1: "discover_instance sample_proxy ''mcp'' = Some ?mcp"
    by (simp add: discover_instance_def sample_proxy_def sample_registry_def
                  GetHealthyInstance_def DiscoverService_def Health_Service_def instance_of_def)
  have api2: "HasPrefix (req_path ?r2) ''/api/v1/''"
   and ngw2: "\<not> HasPrefix (req_path ?r2) ''/api/v1/gateway/''"
   and name2: "logical_service (req_path ?r2) = Some ''users''"
    by (simp_all add: accept_request_def HasPrefix_def logical_service_def TrimPrefix_def)
  have inst2: "discover_instance sample_proxy ''users'' = Some ?users"
    by (simp add: discover_instance_def sample_proxy_def sample_registry_def
                  GetHealthyInstance_def DiscoverService_def Health_Service_def instance_of_def)
  have acc: "SSEProxy_Handler ?r1 = ProxyHTTP"
    by (simp add: SSEProxy_Handler_def accept_request_def HasPrefix_def)
  from sse_strategy_selection [OF api1 ngw1 name1 inst1]
       sse_strategy_selection [OF api2 ngw2 name2 inst2] acc
  show ?thesis by simp
qed

section \<open>Properties of the MQTT bridge\<close>

lemma Split_segment:
  "sep \<notin> set seg \<Longrightarrow> Split (seg @ sep # rest) sep = seg # Split rest sep"
  by (induction seg) auto

lemma Split_no_sep: "sep \<notin> set seg \<Longrightarrow> Split seg sep = [seg]"
  by (induction seg) auto

lemma device_topic_parts:
  assumes "CHR ''/'' \<notin> set X"
  shows "Split (''devices/'' @ X @ ''/telemetry'') CHR ''/'' = [''devices'', X, ''telemetry'']"
proof -
  have "Split (''devices'' @ CHR ''/'' # (X @ CHR ''/'' # ''telemetry'')) CHR ''/''
          = ''devices'' # Split (X @ CHR ''/'' # ''telemetry'') CHR ''/''"
    by (rule Split_segment) simp
  also have "Split (X @ CHR ''/'' # ''telemetry'') CHR ''/'' = X # Split ''telemetry'' CHR ''/''"
    by (rule Split_segment[OF assms])
  finally show ?thesis by simp
qed

lemma telemetry_topic_matching:
  assumes "CHR ''/'' \<notin> set X"
  shows "matchTopic ''devices/+/telemetry'' (''devices/'' @ X @ ''/telemetry'')
       \<and> \<not> matchTopic ''devices/+/status'' (''devices/'' @ X @ ''/telemetry'')"
  using device_topic_parts[OF assms] by (simp add: matchTopic_def)

lemma matchTopic_same_length:
  "matchTopic pattern topic \<Longrightarrow>
     length (Split pattern CHR ''/'') = length (Split topic CHR ''/'')"
  by (simp add: matchTopic_def Let_def split: if_splits)

lemma unmatched_message_dropped:
  "list_all (\<lambda>(pattern, handler). \<not> matchTopic pattern topic) handlers
     \<Longrightarrow> handleMessage handlers topic = None"
  by (induction handlers) auto

text \<open>
  Claim C8, at an input where the code departs from it. \<^verbatim>\<open>matchTopic\<close> compares the number
  of segments of pattern and topic before it looks at any segment, so the pattern
  \<^verbatim>\<open>devices/#\<close> does not match the topic \<^verbatim>\<open>devices/sensor001/telemetry\<close>, which has one
  segment more. The comment at the test for \<^verbatim>\<open>#\<close> in the loop says that \<^verbatim>\<open>#\<close> matches
  everything after it; it does so only for a topic with as many segments as the pattern.
\<close>

theorem multi_level_wildcard_rejected:
  "matchTopic ''devices/#'' ''devices/sensor001/telemetry'' = False
   \<and> matchTopic ''devices/#'' ''devices/sensor001'' = True"
  by (simp add: matchTopic_def)


section \<open>Properties of the rate limiter\<close>






section \<open>Properties of the SSE proxy's response handling\<close>

lemma Split_unfold:
  "Split data sep =
     takeWhile (\<lambda>c. c \<noteq> sep) data
     # (if dropWhile (\<lambda>c. c \<noteq> sep) data = [] then []
        else Split (tl (dropWhile (\<lambda>c. c \<noteq> sep) data)) sep)"
proof (induction data)
  case Nil
  show ?case by simp
next
  case (Cons c cs)
  show ?case
  proof (cases "c = sep")
    case True
    then show ?thesis by simp
  next
    case False
    obtain p ps where s: "Split cs sep = p # ps"
      and p: "p = takeWhile (\<lambda>c. c \<noteq> sep) cs"
      and ps: "ps = (if dropWhile (\<lambda>c. c \<noteq> sep) cs = [] then []
                     else Split (tl (dropWhile (\<lambda>c. c \<noteq> sep) cs)) sep)"
      using Cons.IH by blast
    have tw: "takeWhile (\<lambda>c. c \<noteq> sep) (c # cs) = c # takeWhile (\<lambda>c. c \<noteq> sep) cs"
     and dw: "dropWhile (\<lambda>c. c \<noteq> sep) (c # cs) = dropWhile (\<lambda>c. c \<noteq> sep) cs"
      using False by simp_all
    have "Split (c # cs) sep = (c # p) # ps"
      using False by (simp add: s)
    then show ?thesis
      unfolding tw dw p ps .
  qed
qed


lemma Split_not_Nil [simp]: "Split data sep \<noteq> []"
  by (subst Split_unfold) simp



lemma Header_fields [simp]:
  "resp_out (Header k v w) = resp_out w"
  "resp_status (Header k v w) = resp_status w"
  "resp_accepts (Header k v w) = resp_accepts w"
  "resp_headers (Header k v w) = (resp_headers w)(k := (if v = [] then None else Some v))"
  by (simp_all add: Header_def)

lemma Status_fields [simp]:
  "resp_out (Status code w) = resp_out w"
  "resp_accepts (Status code w) = resp_accepts w"
  "resp_headers (Status code w) = resp_headers w"
  by (simp_all add: Status_def)


lemma add_values_fields [simp]:
  "resp_out (add_values k vs w) = resp_out w"
  "resp_status (add_values k vs w) = resp_status w"
  "resp_accepts (add_values k vs w) = resp_accepts w"
  by (induction vs arbitrary: w) simp_all


lemma copy_headers_fields [simp]:
  "resp_out (copy_headers hs w) = resp_out w"
  "resp_status (copy_headers hs w) = resp_status w"
  "resp_accepts (copy_headers hs w) = resp_accepts w"
  by (induction hs arbitrary: w) auto









end
